theory Spec2Isabelle
  imports Main
begin

section \<open>JavaScript primitives used by the page component\<close>

text \<open>
  The component \<^verbatim>\<open>Home\<close> of \<^verbatim>\<open>src/frontend/app/page.tsx\<close> is embedded function by
  function. The file holds two revisions of the component one after the other; the
  embedding follows the first one (lines 1-1712), and all line numbers refer to it.
  JavaScript numbers are modelled as integers (\<^typ>\<open>int\<close>): the job status
  endpoint reports whole seconds and whole percents; fractional values are outside the
  model, and so are whole numbers too large for the double arithmetic of the code to be
  exact (see \<open>exact_seconds\<close> below).
  An optional field (\<^verbatim>\<open>x?: T\<close>) is \<^typ>\<open>'a option\<close>, \<^verbatim>\<open>undefined\<close> being \<^term>\<open>None\<close>.
  Every asynchronous function takes the outcomes of the requests it awaits as arguments
  and returns the component state it leaves behind.
\<close>

text \<open>\<^verbatim>\<open>a || b\<close> on an optional string: the empty string and \<^verbatim>\<open>undefined\<close> are falsy.\<close>

definition truthy :: "string option \<Rightarrow> bool" where
  "truthy x = (case x of None \<Rightarrow> False | Some s \<Rightarrow> s \<noteq> [])"

definition or_else :: "string option \<Rightarrow> string \<Rightarrow> string" where
  "or_else x d = (case x of None \<Rightarrow> d | Some s \<Rightarrow> if s = [] then d else s)"

text \<open>\<^verbatim>\<open>Number.prototype.toString()\<close> on an integer: decimal digits, a minus sign first.\<close>

function nat_toString :: "nat \<Rightarrow> string" where
  "nat_toString n =
     (if n < 10 then [''0123456789'' ! n]
      else nat_toString (n div 10) @ [''0123456789'' ! (n mod 10)])"
  by pat_completeness auto
termination
  by (relation "measure (\<lambda>n. n)") auto

declare nat_toString.simps [simp del]

definition number_toString :: "int \<Rightarrow> string" where
  "number_toString i = (if i < 0 then CHR ''-'' # nat_toString (nat (- i)) else nat_toString (nat i))"

text \<open>\<^verbatim>\<open>s.padStart(n, c)\<close> with a one-character filler.\<close>

definition padStart :: "nat \<Rightarrow> char \<Rightarrow> string \<Rightarrow> string" where
  "padStart n c s = replicate (n - length s) c @ s"

text \<open>
  \<^verbatim>\<open>a % b\<close> truncates towards zero (the result has the sign of \<open>a\<close>), unlike \<open>mod\<close> on
  \<^typ>\<open>int\<close>; \<^verbatim>\<open>Math.floor(a / b)\<close> and \<^verbatim>\<open>Math.ceil(a / b)\<close> on integers with \<open>b > 0\<close>
  are floor and ceiling division.
\<close>

text \<open>
  The code computes on doubles. For a whole number \<open>t\<close> of magnitude below \<open>2\<^sup>3\<^sup>2\<close> the
  double holds \<open>t\<close> exactly, \<^verbatim>\<open>t % 60\<close> is exact, and the rounding error of \<^verbatim>\<open>t / 60\<close> (below
  \<open>2\<^sup>-\<^sup>2\<^sup>0\<close>) is smaller than the distance \<open>1/60\<close> of an inexact quotient from the nearest
  whole number, so \<^verbatim>\<open>Math.floor\<close>, \<^verbatim>\<open>Math.ceil\<close> and \<^verbatim>\<open>toString\<close> give what the integer
  operations below give. Beyond \<open>2\<^sup>5\<^sup>3\<close> they do not: doubles no longer hold every whole
  number and \<^verbatim>\<open>toString\<close> prints rounded digits. General statements about the renderings
  are made for arguments in the exact range only.
\<close>

definition exact_seconds :: "int \<Rightarrow> bool" where
  "exact_seconds t = (\<bar>t\<bar> < 2 ^ 32)"

definition js_rem :: "int \<Rightarrow> int \<Rightarrow> int" where
  "js_rem a b = sgn a * (\<bar>a\<bar> mod \<bar>b\<bar>)"

definition floor_div :: "int \<Rightarrow> int \<Rightarrow> int" where
  "floor_div a b = a div b"

definition ceil_div :: "int \<Rightarrow> int \<Rightarrow> int" where
  "ceil_div a b = - ((- a) div b)"

section \<open>Progress model: remaining time and phase description\<close>

text \<open>
  \<^verbatim>\<open>formatTime\<close> (page.tsx, lines 689-696):
  \<^verbatim>\<open>if (!seconds) return '00:00'\<close>, then minutes and seconds, each padded to two digits.
  The argument is a whole number of seconds in the exact range.
\<close>

definition formatTime :: "int option \<Rightarrow> string" where
  "formatTime seconds =
     (case seconds of
        None \<Rightarrow> ''00:00''
      | Some s \<Rightarrow>
          if s = 0 then ''00:00''
          else
            let minutes = floor_div s 60;
                remainingSeconds = js_rem s 60
            in padStart 2 (CHR ''0'') (number_toString minutes) @ '':'' @
               padStart 2 (CHR ''0'') (number_toString remainingSeconds))"

text \<open>
  The estimated-time line of the progress panel (page.tsx, lines 1598-1609), that is the
  text after the label \<^verbatim>\<open>Estimated time remaining:\<close>. It is rendered only when
  \<^verbatim>\<open>estimated_time_remaining\<close> is present and positive (\<^term>\<open>None\<close>: nothing is rendered);
  the value is shown in minutes, rounded up, when it is strictly above 60, and in seconds
  otherwise. The value is a whole number of seconds in the exact range.
\<close>

definition estimated_time_text :: "int option \<Rightarrow> string option" where
  "estimated_time_text etr =
     (case etr of
        None \<Rightarrow> None
      | Some t \<Rightarrow>
          if t > 0 then
            Some (if t > 60 then number_toString (ceil_div t 60) @ '' minutes''
                  else number_toString t @ '' seconds'')
          else None)"

text \<open>
  The status description of the progress panel (page.tsx, lines 1611-1631): six
  conditional paragraphs \<^verbatim>\<open>{status === '...' && <p>...</p>}\<close>, in this order. The result
  is the list of paragraphs rendered; there is no default branch.
\<close>

definition status_description :: "string \<Rightarrow> string list" where
  "status_description status =
     (if status = ''generating_script''
        then [''Creating an engaging script based on your input...''] else []) @
     (if status = ''generating_video''
        then [''Crafting your video with AI-powered visuals...''] else []) @
     (if status = ''adding_voiceover''
        then [''Adding professional narration to your video...''] else []) @
     (if status = ''enhancing_video''
        then [''Polishing and enhancing your video for best quality...''] else []) @
     (if status = ''processing_audio''
        then [''Fine-tuning audio for perfect synchronization...''] else []) @
     (if status = ''finalizing''
        then [''Putting the finishing touches on your masterpiece...''] else [])"

definition known_phases :: "string list" where
  "known_phases = [''generating_script'', ''generating_video'', ''adding_voiceover'',
                   ''enhancing_video'', ''processing_audio'', ''finalizing'']"

section \<open>Data model\<close>

text \<open>
  The response shapes of page.tsx (lines 25-110), restricted to the fields that the modelled
  functions read. Field names carry a prefix where two interfaces share a name.
\<close>

record JobResult =
  script :: string
  effects :: "string list"
  video_path :: string
  used_custom_model :: bool
  used_custom_voice :: bool

record JobStatus =
  status :: string
  progress :: int
  result :: "JobResult option"
  job_error :: "string option"
  estimated_time_remaining :: "int option"

record VoiceFile =
  vf_id :: string
  vf_name :: string
  vf_url :: string

record VoiceUploadResponse =
  vu_success :: bool
  vu_filename :: string
  vu_filepath :: string
  vu_voice_id :: "string option"
  vu_url :: "string option"

record CloneVoiceResponse =
  cv_success :: bool
  cv_error :: "string option"
  cv_voice_id :: string
  cv_voice_name :: string

record TrainingImage =
  ti_file :: string
  ti_type :: string

record TrainingModelResponse =
  tm_success :: bool
  tm_model_id :: string
  tm_error :: "string option"

record TrainingStatusResponse =
  ts_success :: bool
  ts_status :: string
  ts_error :: "string option"

record GenerateAdResponse =
  ga_success :: bool
  ga_job_id :: string

text \<open>
  An awaited \<^verbatim>\<open>axios\<close> call either resolves with the response body or rejects (network
  failure, non-2xx answer) with an \<^verbatim>\<open>Error\<close> carrying a message.
\<close>

datatype 'a http = Rejected string | Resolved 'a

text \<open>The network calls the modelled functions issue.\<close>

datatype request =
    GetStatus string
  | PostUploadVoice string
  | PostCloneVoice string string string
  | GetVoicesAvailable
  | PostUploadTraining "(string \<times> string) list"
  | PostTrainingStart string
  | GetTrainingStatus string
  | PostGenerateAd string

text \<open>
  The component state (the \<^verbatim>\<open>useState\<close> cells the modelled functions touch, lines 126-147)
  together with what the functions do to the outside: lines written to the console, \<^verbatim>\<open>alert\<close>
  boxes shown, requests issued, milliseconds spent in awaited timers, and whether the
  \<^verbatim>\<open>setInterval\<close> timer of the job status effect is live.
\<close>

record home =
  loading :: bool
  error :: "string option"
  jobId :: "string option"
  jobStatus :: "JobStatus option"
  uploadedVoices :: "VoiceFile list"
  selectedVoice :: "string option"
  trainingImages :: "TrainingImage list"
  trainingInProgress :: bool
  trainingProgress :: int
  modelId :: "string option"
  console :: "string list"
  alerts :: "string list"
  requests :: "request list"
  waited :: nat
  interval :: bool

definition initial_home :: home where
  "initial_home =
     \<lparr>loading = False, error = None, jobId = None, jobStatus = None, uploadedVoices = [],
      selectedVoice = None, trainingImages = [], trainingInProgress = False,
      trainingProgress = 0, modelId = None, console = [], alerts = [], requests = [],
      waited = 0, interval = False\<rparr>"

definition issue :: "request \<Rightarrow> home \<Rightarrow> home" where
  "issue q s = s\<lparr>requests := requests s @ [q]\<rparr>"

definition log :: "string \<Rightarrow> home \<Rightarrow> home" where
  "log l s = s\<lparr>console := console s @ [l]\<rparr>"

definition alert :: "string \<Rightarrow> home \<Rightarrow> home" where
  "alert msg s = s\<lparr>alerts := alerts s @ [msg]\<rparr>"

section \<open>Voice capture and cloning\<close>

text \<open>
  The entry built from a successful upload response (lines 468-472 and 534-538);
  \<open>now\<close> is the value of \<^verbatim>\<open>Date.now()\<close>.
\<close>

definition newVoice :: "VoiceUploadResponse \<Rightarrow> nat \<Rightarrow> VoiceFile" where
  "newVoice d now =
     \<lparr>vf_id = or_else (vu_voice_id d) (''custom-'' @ nat_toString now),
      vf_name = vu_filename d,
      vf_url = or_else (vu_url d) (''/api/voices/'' @ vu_filename d)\<rparr>"

text \<open>Lines 473-476 and 539-542: append the entry, select it when its id is truthy.\<close>

definition addVoice :: "VoiceFile \<Rightarrow> home \<Rightarrow> home" where
  "addVoice v s =
     (let s1 = s\<lparr>uploadedVoices := uploadedVoices s @ [v]\<rparr>
      in if vf_id v \<noteq> [] then s1\<lparr>selectedVoice := Some (vf_id v)\<rparr> else s1)"

text \<open>
  \<^verbatim>\<open>cloneVoice\<close> (lines 485-523). \<open>answer\<close> is what \<^verbatim>\<open>prompt\<close> returns (\<^term>\<open>None\<close> on
  cancel; an empty name is falsy too), \<open>r\<close> the outcome of the clone request.
  \<^verbatim>\<open>fetchVoices()\<close> is started without being awaited; only its request is recorded, its
  response touches state outside \<^typ>\<open>home\<close>. The \<^verbatim>\<open>finally\<close> block clears \<open>loading\<close> on
  every path.
\<close>

definition cloneVoice ::
  "string \<Rightarrow> string option \<Rightarrow> CloneVoiceResponse http \<Rightarrow> home \<Rightarrow> home" where
  "cloneVoice voiceSamplePath answer r s =
     (let s1 = s\<lparr>loading := True, error := None\<rparr> in
      case answer of
        None \<Rightarrow> s1\<lparr>loading := False\<rparr>
      | Some voiceName \<Rightarrow>
        if voiceName = [] then s1\<lparr>loading := False\<rparr>
        else
        let s2 = issue (PostCloneVoice voiceSamplePath voiceName
                          (''Cloned voice for '' @ voiceName)) s1
        in (case r of
              Rejected m \<Rightarrow>
                (alert ''Failed to clone voice. Please try again.''
                   (log ''Error cloning voice:'' s2))\<lparr>loading := False\<rparr>
            | Resolved d \<Rightarrow>
                if cv_success d then
                  ((issue GetVoicesAvailable
                     (alert (''Voice '' @ [CHR 0x22] @ voiceName @ [CHR 0x22] @
                             '' cloned successfully! You can now use it for video narration.'')
                        s2))
                   \<lparr>selectedVoice := Some (cv_voice_id d)\<rparr>)\<lparr>loading := False\<rparr>
                else
                  (alert (''Failed to clone voice: '' @ or_else (cv_error d) ''Unknown error'')
                     s2)\<lparr>loading := False\<rparr>))"

text \<open>
  \<^verbatim>\<open>uploadVoiceRecording\<close> (lines 456-483). \<open>t0\<close> and \<open>t1\<close> are the two readings of
  \<^verbatim>\<open>Date.now()\<close>, \<open>accept\<close> the answer to \<^verbatim>\<open>confirm\<close>.
\<close>

definition uploadVoiceRecording ::
  "nat \<Rightarrow> nat \<Rightarrow> bool \<Rightarrow> string option \<Rightarrow> VoiceUploadResponse http \<Rightarrow>
   CloneVoiceResponse http \<Rightarrow> home \<Rightarrow> home" where
  "uploadVoiceRecording t0 t1 accept answer up cl s =
     (let s1 = issue (PostUploadVoice (''recording_'' @ nat_toString t0 @ ''.wav'')) s in
      case up of
        Rejected m \<Rightarrow>
          alert ''Failed to upload voice recording. Please try again.''
            (log ''Error uploading voice recording:'' s1)
      | Resolved d \<Rightarrow>
          if vu_success d then
            (if accept then cloneVoice (vu_filepath d) answer cl s1
             else addVoice (newVoice d t1) s1)
          else s1)"

text \<open>\<^verbatim>\<open>handleVoiceUpload\<close> (lines 525-547); a file is represented by its name.\<close>

definition handleVoiceUpload ::
  "string list \<Rightarrow> nat \<Rightarrow> VoiceUploadResponse http \<Rightarrow> home \<Rightarrow> home" where
  "handleVoiceUpload files now up s =
     (case files of
        [] \<Rightarrow> s
      | f # _ \<Rightarrow>
          let s1 = issue (PostUploadVoice f) s in
          (case up of
             Rejected m \<Rightarrow> log ''Error uploading voice file:'' s1
           | Resolved d \<Rightarrow>
               if vu_success d then addVoice (newVoice d now) s1 else s1))"

text \<open>A clone request that fails: it is rejected, or answered with \<^verbatim>\<open>success: false\<close>.\<close>

definition clone_failed :: "CloneVoiceResponse http \<Rightarrow> bool" where
  "clone_failed cl = (case cl of Rejected _ \<Rightarrow> True | Resolved c \<Rightarrow> \<not> cv_success c)"

section \<open>Training lifecycle\<close>

text \<open>
  The \<^verbatim>\<open>catch\<close> block of \<^verbatim>\<open>startTraining\<close> (lines 672-676). Every value thrown inside the
  \<^verbatim>\<open>try\<close> is an \<^verbatim>\<open>Error\<close> (a rejected request or \<^verbatim>\<open>new Error(...)\<close>), so the message shown
  is the error's own.
\<close>

definition training_catch :: "string \<Rightarrow> home \<Rightarrow> home" where
  "training_catch m s =
     (log ''Error training model:'' s)\<lparr>error := Some m, trainingInProgress := False\<rparr>"

text \<open>
  The \<^verbatim>\<open>switch (status)\<close> of the poll loop (lines 641-661): the new value of
  \<^verbatim>\<open>isCompleted\<close> and the state, or the message thrown. A label without a \<^verbatim>\<open>case\<close> falls
  through the switch unchanged.
\<close>

definition status_switch ::
  "string \<Rightarrow> string \<Rightarrow> bool \<Rightarrow> home \<Rightarrow> string + bool \<times> home" where
  "status_switch model st isCompleted s =
     (if st = ''preprocessing'' then Inr (isCompleted, s\<lparr>trainingProgress := 60\<rparr>)
      else if st = ''feature_extraction'' then Inr (isCompleted, s\<lparr>trainingProgress := 70\<rparr>)
      else if st = ''training'' then Inr (isCompleted, s\<lparr>trainingProgress := 80\<rparr>)
      else if st = ''finetuning'' then Inr (isCompleted, s\<lparr>trainingProgress := 90\<rparr>)
      else if st = ''completed''
        then Inr (True, s\<lparr>trainingProgress := 100, modelId := Some model\<rparr>)
      else if st = ''failed'' then Inl ''Training failed. Please try again.''
      else Inr (isCompleted, s))"

text \<open>
  The poll loop (lines 623-664),
  \<^verbatim>\<open>while (!isCompleted && attempts < 30) { await sleep(10000); query; ... attempts++ }\<close>.
  The list holds the outcomes of the status queries in the order the loop issues them. The
  loop leaves by its condition (\<open>Exited\<close>, with the final \<^verbatim>\<open>isCompleted\<close>), by a throw
  (\<open>Thrown\<close>), or is still waiting for an answer when the outcomes run out (\<open>Awaiting\<close>).
  A response with \<^verbatim>\<open>success: false\<close> is logged and followed by \<^verbatim>\<open>continue\<close>, which skips
  \<^verbatim>\<open>attempts++\<close>.
\<close>

datatype loop_exit = Exited bool | Thrown string | Awaiting

fun training_poll ::
  "string \<Rightarrow> bool \<Rightarrow> nat \<Rightarrow> TrainingStatusResponse http list \<Rightarrow> home \<Rightarrow> loop_exit \<times> home"
where
  "training_poll model isCompleted attempts [] s =
     (if \<not> isCompleted \<and> attempts < 30 then (Awaiting, s) else (Exited isCompleted, s))"
| "training_poll model isCompleted attempts (r # rs) s =
     (if \<not> isCompleted \<and> attempts < 30 then
        let s1 = issue (GetTrainingStatus model) (s\<lparr>waited := waited s + 10000\<rparr>) in
        (case r of
           Rejected m \<Rightarrow> (Thrown m, s1)
         | Resolved d \<Rightarrow>
             if \<not> ts_success d then
               training_poll model isCompleted attempts rs
                 (log ''Error checking training status:'' s1)
             else
               (case status_switch model (ts_status d) isCompleted s1 of
                  Inl m \<Rightarrow> (Thrown m, s1)
                | Inr (c, s2) \<Rightarrow> training_poll model c (attempts + 1) rs s2))
      else (Exited isCompleted, s))"

text \<open>
  \<^verbatim>\<open>startTraining\<close> (lines 575-677): the local check, the upload, the start request and the
  poll loop, all inside one \<^verbatim>\<open>try\<close>.
\<close>

definition startTraining ::
  "TrainingModelResponse http \<Rightarrow> TrainingModelResponse http \<Rightarrow>
   TrainingStatusResponse http list \<Rightarrow> home \<Rightarrow> home" where
  "startTraining upload start polls s =
     (if length (trainingImages s) < 3 then
        s\<lparr>error := Some ''Please upload at least 3 images or videos for training''\<rparr>
      else
        let s1 = s\<lparr>trainingInProgress := True, error := None\<rparr>;
            s2 = issue (PostUploadTraining
                          (map (\<lambda>img. (ti_file img, ti_type img)) (trainingImages s))) s1
        in (case upload of
              Rejected m \<Rightarrow> training_catch m s2
            | Resolved u \<Rightarrow>
                if \<not> tm_success u then
                  training_catch (or_else (tm_error u) ''Failed to upload training files'') s2
                else
                  let s3 = s2\<lparr>trainingProgress := 30\<rparr>;
                      model = tm_model_id u;
                      s4 = issue (PostTrainingStart model) s3
                  in (case start of
                        Rejected m \<Rightarrow> training_catch m s4
                      | Resolved b \<Rightarrow>
                          if \<not> tm_success b then
                            training_catch (or_else (tm_error b) ''Failed to start training'') s4
                          else
                            (case training_poll model False 0 polls
                                    (s4\<lparr>trainingProgress := 50\<rparr>) of
                               (Awaiting, s5) \<Rightarrow> s5
                             | (Thrown m, s5) \<Rightarrow> training_catch m s5
                             | (Exited isCompleted, s5) \<Rightarrow>
                                 if \<not> isCompleted then
                                   training_catch
                                     ''Training timed out. The process may still be running in the background.''
                                     s5
                                 else s5\<lparr>trainingInProgress := False\<rparr>))))"

text \<open>The status queries among the requests issued.\<close>

definition polls_issued :: "home \<Rightarrow> nat" where
  "polls_issued s =
     length (filter (\<lambda>q. case q of GetTrainingStatus _ \<Rightarrow> True | _ \<Rightarrow> False) (requests s))"

text \<open>A query that resolves, reports success and carries a status that is neither
  \<^verbatim>\<open>completed\<close> nor \<^verbatim>\<open>failed\<close>.\<close>

definition in_progress :: "TrainingStatusResponse http \<Rightarrow> bool" where
  "in_progress r =
     (case r of
        Rejected _ \<Rightarrow> False
      | Resolved d \<Rightarrow> ts_success d \<and> ts_status d \<noteq> ''completed'' \<and> ts_status d \<noteq> ''failed'')"

section \<open>Job status polling\<close>

definition terminal :: "string \<Rightarrow> bool" where
  "terminal st = (st = ''completed'' \<or> st = ''failed'')"

text \<open>
  The job status effect (lines 272-302). Its body installs a 2-second interval timer when
  \<^verbatim>\<open>jobId && jobStatus?.status !== 'completed' && jobStatus?.status !== 'failed'\<close>; React runs
  the cleanup (which clears the timer) and the body again whenever \<^verbatim>\<open>jobId\<close> or
  \<^verbatim>\<open>jobStatus?.status\<close> has changed.
\<close>

definition current_status :: "home \<Rightarrow> string option" where
  "current_status s = map_option status (jobStatus s)"

definition effect_condition :: "home \<Rightarrow> bool" where
  "effect_condition s =
     (truthy (jobId s) \<and> current_status s \<noteq> Some ''completed''
      \<and> current_status s \<noteq> Some ''failed'')"

definition rerender :: "home \<Rightarrow> home \<Rightarrow> home" where
  "rerender old new =
     (if jobId new \<noteq> jobId old \<or> current_status new \<noteq> current_status old
      then new\<lparr>interval := effect_condition new\<rparr> else new)"

text \<open>
  The timer callback (lines 276-294), given the outcome of its status query. A timer is
  only ever installed while \<^verbatim>\<open>jobId\<close> is set; without one the callback has nothing to do.
\<close>

definition interval_callback :: "JobStatus http \<Rightarrow> home \<Rightarrow> home" where
  "interval_callback r s =
     (case jobId s of
        None \<Rightarrow> s
      | Some jid \<Rightarrow>
          let s1 = issue (GetStatus jid) s in
          (case r of
             Resolved d \<Rightarrow>
               let s2 = s1\<lparr>jobStatus := Some d\<rparr> in
               if terminal (status d) then
                 let s3 = s2\<lparr>interval := False, loading := False\<rparr> in
                 if status d = ''failed''
                 then s3\<lparr>error := Some (or_else (job_error d) ''Video generation failed'')\<rparr>
                 else s3
               else s2
           | Rejected m \<Rightarrow>
               (log ''Error checking job status:'' s1)
                 \<lparr>interval := False, loading := False,
                  error := Some ''Failed to check video generation status''\<rparr>))"

text \<open>
  One tick of the timer followed by React's reaction to the state change; the ticks of a
  run, one status query outcome each, as long as a timer is live; and the states after
  each tick. Every query is taken to resolve before the next tick.
\<close>

definition effect_tick :: "JobStatus http \<Rightarrow> home \<Rightarrow> home" where
  "effect_tick r s = rerender s (interval_callback r s)"

fun effect_poll :: "JobStatus http list \<Rightarrow> home \<Rightarrow> home" where
  "effect_poll [] s = s"
| "effect_poll (r # rs) s = (if interval s then effect_poll rs (effect_tick r s) else s)"



text \<open>
  \<^verbatim>\<open>startCheckingStatus\<close> (lines 699-732): \<^verbatim>\<open>checkStatus\<close> runs at once and re-arms itself
  with \<^verbatim>\<open>setTimeout(checkStatus, 2000)\<close> after a non-terminal answer.
\<close>

definition log_completion :: "JobStatus \<Rightarrow> home \<Rightarrow> home" where
  "log_completion d s =
     (case result d of
        None \<Rightarrow> s
      | Some res \<Rightarrow>
          if status d = ''completed'' then
            let s1 = log ''Video generated successfully!'' s;
                s2 = (if used_custom_model res
                      then log ''Using your custom trained model for personalization.'' s1
                      else s1)
            in if used_custom_voice res
               then log ''Using your custom voice for narration.'' s2 else s2
          else s)"

fun startCheckingStatus :: "string \<Rightarrow> JobStatus http list \<Rightarrow> home \<Rightarrow> home" where
  "startCheckingStatus jid [] s = s"
| "startCheckingStatus jid (r # rs) s =
     (let s1 = issue (GetStatus jid) s in
      case r of
        Resolved d \<Rightarrow>
          let s2 = s1\<lparr>jobStatus := Some d\<rparr> in
          if terminal (status d) then log_completion d (s2\<lparr>loading := False\<rparr>)
          else startCheckingStatus jid rs s2
      | Rejected m \<Rightarrow> (log ''Error checking job status:'' s1)\<lparr>loading := False\<rparr>)"

text \<open>
  \<^verbatim>\<open>handleAdGeneration\<close> (lines 735-800). Its \<^verbatim>\<open>checkStatus\<close> (lines 762-775) runs once at
  launch and then on every tick of \<^verbatim>\<open>setInterval(checkStatus, 2000)\<close>; the timer is cleared
  only by the \<^verbatim>\<open>setTimeout\<close> of 300000 ms. The list holds the outcomes of the checks made
  before that cut-off. Of the request payload only the prompt is recorded. Each polling
  loop is modelled on its own: \<^verbatim>\<open>setJobId\<close> also arms the job status effect, which polls
  the same job independently.
\<close>

definition ad_checkStatus :: "string \<Rightarrow> JobStatus http \<Rightarrow> home \<Rightarrow> home" where
  "ad_checkStatus jid r s =
     (let s1 = issue (GetStatus jid) s in
      case r of
        Resolved d \<Rightarrow>
          let s2 = s1\<lparr>jobStatus := Some d\<rparr> in
          if terminal (status d) then s2\<lparr>loading := False\<rparr> else s2
      | Rejected m \<Rightarrow>
          (log ''Error checking job status:'' s1)
            \<lparr>loading := False, error := Some ''Failed to check ad generation status''\<rparr>)"

fun ad_checks :: "string \<Rightarrow> JobStatus http list \<Rightarrow> home \<Rightarrow> home" where
  "ad_checks jid [] s = s"
| "ad_checks jid (r # rs) s = ad_checks jid rs (ad_checkStatus jid r s)"

definition handleAdGeneration ::
  "string \<Rightarrow> GenerateAdResponse http \<Rightarrow> JobStatus http list \<Rightarrow> home \<Rightarrow> home" where
  "handleAdGeneration adText launch checks s =
     (if adText = [] then s\<lparr>error := Some ''Please enter ad content''\<rparr>
      else
        let s1 = issue (PostGenerateAd adText)
                   (s\<lparr>loading := True, error := None, jobStatus := None\<rparr>)
        in (case launch of
              Rejected m \<Rightarrow>
                (log ''Error:'' s1)
                  \<lparr>error := Some (or_else (Some m) ''An error occurred''), loading := False\<rparr>
            | Resolved d \<Rightarrow>
                if ga_success d
                then ad_checks (ga_job_id d) checks (s1\<lparr>jobId := Some (ga_job_id d)\<rparr>)
                else s1\<lparr>error := Some ''Failed to generate ad'', loading := False\<rparr>))"

text \<open>The status queries for one job among the requests issued.\<close>

definition status_queries :: "string \<Rightarrow> home \<Rightarrow> nat" where
  "status_queries jid s = length (filter (\<lambda>q. q = GetStatus jid) (requests s))"

section \<open>Concrete inputs\<close>

text \<open>Inputs at which the properties below are exercised.\<close>

definition two_images :: home where
  "two_images = initial_home\<lparr>trainingImages :=
     [\<lparr>ti_file = ''a.png'', ti_type = ''image''\<rparr>,
      \<lparr>ti_file = ''b.mp4'', ti_type = ''video''\<rparr>]\<rparr>"

definition three_images :: home where
  "three_images = initial_home\<lparr>trainingImages :=
     [\<lparr>ti_file = ''a.png'', ti_type = ''image''\<rparr>,
      \<lparr>ti_file = ''b.mp4'', ti_type = ''video''\<rparr>,
      \<lparr>ti_file = ''c.png'', ti_type = ''image''\<rparr>]\<rparr>"

definition upload_ok :: VoiceUploadResponse where
  "upload_ok = \<lparr>vu_success = True, vu_filename = ''a.wav'', vu_filepath = ''/tmp/a.wav'',
                vu_voice_id = None, vu_url = None\<rparr>"

definition model_ok :: TrainingModelResponse where
  "model_ok = \<lparr>tm_success = True, tm_model_id = ''m1'', tm_error = None\<rparr>"

text \<open>A training status answer with \<^verbatim>\<open>success: true\<close> and the given phase, and one with
  \<^verbatim>\<open>success: false\<close>.\<close>

definition phase :: "string \<Rightarrow> TrainingStatusResponse http" where
  "phase st = Resolved \<lparr>ts_success = True, ts_status = st, ts_error = None\<rparr>"

definition unsuccessful :: "TrainingStatusResponse http" where
  "unsuccessful =
     Resolved \<lparr>ts_success = False, ts_status = [], ts_error = Some ''status unavailable''\<rparr>"

text \<open>A job status answer without result, error or time estimate.\<close>

definition report :: "string \<Rightarrow> int \<Rightarrow> JobStatus" where
  "report st p =
     \<lparr>status = st, progress = p, result = None, job_error = None,
      estimated_time_remaining = None\<rparr>"


section \<open>Properties\<close>

subsection \<open>Training start\<close>

text \<open>
  Claim C9. Started with fewer than three training assets, \<^verbatim>\<open>startTraining\<close> only sets the
  error message: no request is issued (neither upload, start nor status query) and the
  training state (\<open>trainingInProgress\<close>, \<open>trainingProgress\<close>, \<open>modelId\<close>) is as before.
\<close>

theorem startTraining_needs_3:
  assumes "length (trainingImages s) < 3"
  shows "startTraining upload start polls s =
           s\<lparr>error := Some ''Please upload at least 3 images or videos for training''\<rparr>
         \<and> requests (startTraining upload start polls s) = requests s
         \<and> trainingInProgress (startTraining upload start polls s) = trainingInProgress s
         \<and> trainingProgress (startTraining upload start polls s) = trainingProgress s
         \<and> modelId (startTraining upload start polls s) = modelId s"
  using assms by (simp add: startTraining_def)

theorem startTraining_needs_3_witness:
  "length (trainingImages two_images) < 3 \<and>
   requests (startTraining (Rejected ''x'') (Rejected ''y'') [] two_images) = requests two_images"
proof -
  have h: "length (trainingImages two_images) < 3" by (simp add: two_images_def)
  from h startTraining_needs_3 [OF h] show ?thesis by simp
qed

subsection \<open>Uploaded voices\<close>

text \<open>
  Claim C10. A successful upload response that becomes a voice entry (a file dropped on
  \<^verbatim>\<open>handleVoiceUpload\<close>, or a recording uploaded with cloning declined) yields an entry
  with a non-empty id: the response's \<^verbatim>\<open>voice_id\<close> when it has one, \<^verbatim>\<open>custom-<timestamp>\<close>
  otherwise. The entry is appended after the existing entries and becomes the selected
  voice.
\<close>

theorem uploaded_voice_entry:
  assumes "vu_success d"
  shows "\<exists>v. vf_id v \<noteq> [] \<and>
             (\<not> truthy (vu_voice_id d) \<longrightarrow> vf_id v = ''custom-'' @ nat_toString now) \<and>
             (truthy (vu_voice_id d) \<longrightarrow> vu_voice_id d = Some (vf_id v)) \<and>
             uploadedVoices (handleVoiceUpload (f # fs) now (Resolved d) s)
               = uploadedVoices s @ [v] \<and>
             selectedVoice (handleVoiceUpload (f # fs) now (Resolved d) s) = Some (vf_id v) \<and>
             uploadedVoices (uploadVoiceRecording t0 now False answer (Resolved d) cl s)
               = uploadedVoices s @ [v] \<and>
             selectedVoice (uploadVoiceRecording t0 now False answer (Resolved d) cl s)
               = Some (vf_id v)"
proof -
  let ?v = "newVoice d now"
  have nonempty: "vf_id ?v \<noteq> []"
    by (simp add: newVoice_def or_else_def split: option.splits)
  have fallback: "\<not> truthy (vu_voice_id d) \<longrightarrow> vf_id ?v = ''custom-'' @ nat_toString now"
    by (simp add: newVoice_def or_else_def truthy_def split: option.splits)
  have given: "truthy (vu_voice_id d) \<longrightarrow> vu_voice_id d = Some (vf_id ?v)"
    by (simp add: newVoice_def or_else_def truthy_def split: option.splits)
  have add: "uploadedVoices (addVoice ?v x) = uploadedVoices x @ [?v]"
            "selectedVoice (addVoice ?v x) = Some (vf_id ?v)" for x
    using nonempty by (simp_all add: addVoice_def Let_def)
  have by_file:
    "handleVoiceUpload (f # fs) now (Resolved d) s = addVoice ?v (issue (PostUploadVoice f) s)"
    using assms by (simp add: handleVoiceUpload_def)
  have by_rec: "uploadVoiceRecording t0 now False answer (Resolved d) cl s
      = addVoice ?v (issue (PostUploadVoice (''recording_'' @ nat_toString t0 @ ''.wav'')) s)"
    using assms by (simp add: uploadVoiceRecording_def)
  from nonempty fallback given show ?thesis
    by (intro exI [of _ ?v]) (simp add: by_file by_rec add issue_def)
qed

theorem uploaded_voice_entry_witness:
  "vu_success upload_ok \<and>
   (\<exists>v. vf_id v \<noteq> [] \<and>
        (\<not> truthy (vu_voice_id upload_ok) \<longrightarrow> vf_id v = ''custom-'' @ nat_toString 42) \<and>
        (truthy (vu_voice_id upload_ok) \<longrightarrow> vu_voice_id upload_ok = Some (vf_id v)) \<and>
        uploadedVoices (handleVoiceUpload [''a.wav''] 42 (Resolved upload_ok) initial_home)
           = uploadedVoices initial_home @ [v] \<and>
        selectedVoice (handleVoiceUpload [''a.wav''] 42 (Resolved upload_ok) initial_home)
           = Some (vf_id v) \<and>
        uploadedVoices
          (uploadVoiceRecording 41 42 False None (Resolved upload_ok) (Rejected ''x'')
             initial_home)
           = uploadedVoices initial_home @ [v] \<and>
        selectedVoice
          (uploadVoiceRecording 41 42 False None (Resolved upload_ok) (Rejected ''x'')
             initial_home)
           = Some (vf_id v))"
proof -
  have h: "vu_success upload_ok" by (simp add: upload_ok_def)
  from h uploaded_voice_entry [OF h] show ?thesis by blast
qed

subsection \<open>Remaining time and phase description\<close>

text \<open>
  Claim C4, as the code has it. \<^verbatim>\<open>formatTime\<close> renders \<^verbatim>\<open>undefined\<close> and 0 as \<^verbatim>\<open>00:00\<close> and
  a positive whole number of seconds below \<open>2\<^sup>3\<^sup>2\<close> as minutes and seconds, rounded down
  and padded to two digits each: 45 gives \<^verbatim>\<open>00:45\<close>, 125 gives \<^verbatim>\<open>02:05\<close>. Rounding up to
  whole minutes is done by the estimated-time line of the progress panel, a separate
  rendering: it shows nothing for an absent, zero or negative value, the seconds for
  values up to 60, and the minutes rounded up for values above 60 and below \<open>2\<^sup>3\<^sup>2\<close>, so
  that 125 reads \<^verbatim>\<open>3 minutes\<close>.
\<close>

theorem formatTime_and_estimate:
  "formatTime None = ''00:00'' \<and> formatTime (Some 0) = ''00:00'' \<and>
   formatTime (Some 45) = ''00:45'' \<and> formatTime (Some 125) = ''02:05'' \<and>
   estimated_time_text (Some 125) = Some ''3 minutes'' \<and>
   estimated_time_text None = None \<and>
   (0 < t \<and> exact_seconds t \<longrightarrow>
      formatTime (Some t) =
        padStart 2 (CHR ''0'') (number_toString (t div 60)) @ '':'' @
        padStart 2 (CHR ''0'') (number_toString (t mod 60))) \<and>
   (t \<le> 0 \<longrightarrow> estimated_time_text (Some t) = None) \<and>
   (0 < t \<and> t \<le> 60 \<longrightarrow>
      estimated_time_text (Some t) = Some (number_toString t @ '' seconds'')) \<and>
   (60 < t \<and> exact_seconds t \<longrightarrow>
      (\<exists>m. estimated_time_text (Some t) = Some (number_toString m @ '' minutes'') \<and>
           60 * (m - 1) < t \<and> t \<le> 60 * m))"
proof -
  have points:
    "formatTime None = ''00:00''" "formatTime (Some 0) = ''00:00''"
    "formatTime (Some 45) = ''00:45''" "formatTime (Some 125) = ''02:05''"
    by (simp_all add: formatTime_def floor_div_def js_rem_def padStart_def
          number_toString_def nat_toString.simps)
  have label: "estimated_time_text (Some 125) = Some ''3 minutes''"
    by (simp add: estimated_time_text_def ceil_div_def number_toString_def nat_toString.simps)
  have absent: "estimated_time_text None = None"
    by (simp add: estimated_time_text_def)
  have pos: "0 < t \<and> exact_seconds t \<longrightarrow>
      formatTime (Some t) =
        padStart 2 (CHR ''0'') (number_toString (t div 60)) @ '':'' @
        padStart 2 (CHR ''0'') (number_toString (t mod 60))"
    by (simp add: formatTime_def floor_div_def js_rem_def)
  have none: "t \<le> 0 \<longrightarrow> estimated_time_text (Some t) = None"
    by (simp add: estimated_time_text_def)
  have secs: "0 < t \<and> t \<le> 60 \<longrightarrow>
      estimated_time_text (Some t) = Some (number_toString t @ '' seconds'')"
    by (simp add: estimated_time_text_def)
  have mins: "60 < t \<and> exact_seconds t \<longrightarrow>
      (\<exists>m. estimated_time_text (Some t) = Some (number_toString m @ '' minutes'') \<and>
           60 * (m - 1) < t \<and> t \<le> 60 * m)"
  proof
    assume "60 < t \<and> exact_seconds t"
    then have gt: "60 < t" by simp
    have bounds: "60 * (ceil_div t 60 - 1) < t \<and> t \<le> 60 * ceil_div t 60"
      unfolding ceil_div_def by presburger
    from gt have "estimated_time_text (Some t)
        = Some (number_toString (ceil_div t 60) @ '' minutes'')"
      by (simp add: estimated_time_text_def)
    with bounds
    show "\<exists>m. estimated_time_text (Some t) = Some (number_toString m @ '' minutes'') \<and>
           60 * (m - 1) < t \<and> t \<le> 60 * m"
      by blast
  qed
  from points label absent pos none secs mins show ?thesis by blast
qed

theorem formatTime_and_estimate_witness:
  "exact_seconds 125 \<and>
   formatTime (Some 125) = padStart 2 (CHR ''0'') (number_toString 2) @ '':'' @
        padStart 2 (CHR ''0'') (number_toString 5) \<and>
   (\<exists>m. estimated_time_text (Some 125) = Some (number_toString m @ '' minutes'') \<and>
           60 * (m - 1) < 125 \<and> 125 \<le> 60 * m) \<and>
   estimated_time_text (Some 45) = Some (number_toString 45 @ '' seconds'') \<and>
   estimated_time_text (Some (- 5)) = None"
proof -
  have h: "exact_seconds 125" by (simp add: exact_seconds_def)
  from h formatTime_and_estimate [of 125] formatTime_and_estimate [of 45]
    formatTime_and_estimate [of "- 5"]
  show ?thesis by simp
qed

text \<open>
  Claim C4 as stated fails: no rendering gives both \<^verbatim>\<open>00:45\<close> for 45 and \<^verbatim>\<open>3 minutes\<close> for
  125. \<^verbatim>\<open>formatTime\<close> never rounds up to minutes, the estimated-time line shows 45 as
  \<^verbatim>\<open>45 seconds\<close> and exactly 60 as \<^verbatim>\<open>60 seconds\<close>, and a negative argument of \<^verbatim>\<open>formatTime\<close>
  is not rendered as \<^verbatim>\<open>00:00\<close>.
\<close>

theorem formatTime_counterexample:
  "formatTime (Some 125) \<noteq> ''3 minutes'' \<and>
   estimated_time_text (Some 45) \<noteq> Some ''00:45'' \<and>
   estimated_time_text (Some 60) = Some ''60 seconds'' \<and>
   formatTime (Some (- 5)) = ''-1:-5''"
  by (simp add: formatTime_def estimated_time_text_def floor_div_def ceil_div_def js_rem_def
        padStart_def number_toString_def nat_toString.simps)

text \<open>
  Claim C7, as the code has it. The status description is defined for every label and
  cannot throw. It renders exactly one non-empty phrase for each of the six labels it
  knows and nothing for any other label: there is no generic fallback phrase.
\<close>

theorem status_description_phrases:
  "length (status_description st) = (if st \<in> set known_phases then 1 else 0) \<and>
   [] \<notin> set (status_description st)"
  by (simp add: status_description_def known_phases_def)

text \<open>
  Claim C7 as stated fails at the label \<^verbatim>\<open>initializing\<close>, the status every job starts
  with: nothing is rendered for it.
\<close>

theorem status_description_counterexample:
  "status_description ''initializing'' = []"
  by (simp add: status_description_def)

subsection \<open>The training poll loop\<close>

text \<open>Bookkeeping: which steps add a status query, which add waiting time.\<close>

lemma polls_issued_issue [simp]:
  "polls_issued (issue (GetTrainingStatus m) s) = Suc (polls_issued s)"
  by (simp add: polls_issued_def issue_def)

lemma polls_issued_log [simp]: "polls_issued (log l s) = polls_issued s"
  by (simp add: polls_issued_def log_def)

lemma polls_issued_waited [simp]: "polls_issued (s\<lparr>waited := w\<rparr>) = polls_issued s"
  by (simp add: polls_issued_def)

lemma waited_issue [simp]: "waited (issue q s) = waited s"
  by (simp add: issue_def)

lemma waited_log [simp]: "waited (log l s) = waited s"
  by (simp add: log_def)

lemma status_switch_Inr:
  assumes "status_switch model st c s = Inr (c', s')"
  shows "polls_issued s' = polls_issued s \<and> waited s' = waited s"
  using assms by (auto simp: status_switch_def polls_issued_def split: if_splits)

lemma status_switch_in_progress:
  assumes "st \<noteq> ''completed''" "st \<noteq> ''failed''"
  shows "\<exists>s'. status_switch model st c s = Inr (c, s')"
  using assms by (simp add: status_switch_def)

lemma training_poll_step_in_progress:
  assumes "in_progress r" "a < 30"
  shows "\<exists>s'. training_poll model False a (r # rs) s = training_poll model False (Suc a) rs s'
            \<and> polls_issued s' = Suc (polls_issued s) \<and> waited s' = waited s + 10000"
proof -
  from assms(1) obtain d where r: "r = Resolved d" and ok: "ts_success d"
    and nt: "ts_status d \<noteq> ''completed''" "ts_status d \<noteq> ''failed''"
    by (auto simp: in_progress_def split: http.splits)
  let ?s1 = "issue (GetTrainingStatus model) (s\<lparr>waited := waited s + 10000\<rparr>)"
  from status_switch_in_progress [OF nt] obtain s' where
    sw: "status_switch model (ts_status d) False ?s1 = Inr (False, s')" by blast
  from status_switch_Inr [OF sw] have "polls_issued s' = Suc (polls_issued s)"
    "waited s' = waited s + 10000" by simp_all
  moreover have "training_poll model False a (r # rs) s = training_poll model False (Suc a) rs s'"
    using r ok sw assms(2) by (simp add: Let_def)
  ultimately show ?thesis by blast
qed

lemma training_poll_in_progress:
  assumes "list_all in_progress rs" "a \<le> 30" "30 - a \<le> length rs"
  shows "fst (training_poll model False a rs s) = Exited False
         \<and> polls_issued (snd (training_poll model False a rs s)) = polls_issued s + (30 - a)
         \<and> waited (snd (training_poll model False a rs s)) = waited s + (30 - a) * 10000"
  using assms
proof (induction rs arbitrary: a s)
  case Nil
  then show ?case by simp
next
  case (Cons r rs)
  show ?case
  proof (cases "a < 30")
    case False
    with Cons.prems show ?thesis by simp
  next
    case True
    from Cons.prems(1) have r: "in_progress r" and rest: "list_all in_progress rs" by simp_all
    from training_poll_step_in_progress [OF r True] obtain s' where
      step: "training_poll model False a (r # rs) s = training_poll model False (Suc a) rs s'"
      and p: "polls_issued s' = Suc (polls_issued s)" and w: "waited s' = waited s + 10000"
      by blast
    from True Cons.prems(3) have "Suc a \<le> 30" "30 - Suc a \<le> length rs" by simp_all
    from Cons.IH [OF rest this, of s'] True show ?thesis
      unfolding step by (simp add: p w Suc_diff_Suc algebra_simps)
  qed
qed

lemma training_poll_awaiting:
  assumes "list_all in_progress rs" "a + length rs < 30"
  shows "fst (training_poll model False a rs s) = Awaiting"
  using assms
proof (induction rs arbitrary: a s)
  case Nil
  then show ?case by simp
next
  case (Cons r rs)
  from Cons.prems have r: "in_progress r" and rest: "list_all in_progress rs"
    and a: "a < 30" and len: "Suc a + length rs < 30" by simp_all
  from training_poll_step_in_progress [OF r a] obtain s' where
    step: "training_poll model False a (r # rs) s = training_poll model False (Suc a) rs s'"
    by blast
  from Cons.IH [OF rest len, of s'] show ?case unfolding step .
qed

lemma training_poll_exit_lower_bound:
  assumes "training_poll model c a qs s = (Exited False, s')" "a \<le> 30"
  shows "polls_issued s + 30 \<le> polls_issued s' + a"
  using assms
proof (induction qs arbitrary: c a s)
  case Nil
  then show ?case by (auto split: if_splits)
next
  case (Cons q qs)
  show ?case
  proof (cases "\<not> c \<and> a < 30")
    case False
    with Cons.prems show ?thesis by (auto split: if_splits)
  next
    case True
    let ?s1 = "issue (GetTrainingStatus model) (s\<lparr>waited := waited s + 10000\<rparr>)"
    show ?thesis
    proof (cases q)
      case (Rejected m)
      with True Cons.prems show ?thesis by (simp add: Let_def)
    next
      case (Resolved d)
      show ?thesis
      proof (cases "ts_success d")
        case False
        with True Resolved Cons.prems(1)
        have "training_poll model c a qs (log ''Error checking training status:'' ?s1)
                = (Exited False, s')"
          by (simp add: Let_def)
        from Cons.IH [OF this Cons.prems(2)] show ?thesis by simp
      next
        case ok: True
        show ?thesis
        proof (cases "status_switch model (ts_status d) c ?s1")
          case (Inl m)
          with True Resolved ok Cons.prems(1) show ?thesis by (simp add: Let_def)
        next
          case (Inr p)
          obtain c' s2 where p: "p = (c', s2)" by (cases p)
          from Inr p True Resolved ok Cons.prems(1)
          have run: "training_poll model c' (Suc a) qs s2 = (Exited False, s')"
            by (simp add: Let_def)
          from True have "Suc a \<le> 30" by simp
          from Cons.IH [OF run this] status_switch_Inr [OF Inr [unfolded p]]
          show ?thesis by simp
        qed
      qed
    qed
  qed
qed

lemma training_poll_resume:
  assumes "training_poll model c a ps s = (Awaiting, s1)"
  shows "\<exists>a'<30. \<forall>qs. training_poll model c a (ps @ qs) s = training_poll model False a' qs s1"
  using assms
proof (induction ps arbitrary: c a s)
  case Nil
  then have run: "\<not> c" "a < 30" "s1 = s" by (auto split: if_splits)
  then show ?case by auto
next
  case (Cons p ps)
  from Cons.prems have run: "\<not> c \<and> a < 30" by (auto split: if_splits)
  let ?s1 = "issue (GetTrainingStatus model) (s\<lparr>waited := waited s + 10000\<rparr>)"
  show ?case
  proof (cases p)
    case (Rejected m)
    with run Cons.prems show ?thesis by (simp add: Let_def)
  next
    case (Resolved d)
    show ?thesis
    proof (cases "ts_success d")
      case False
      with run Resolved Cons.prems
      have "training_poll model c a ps (log ''Error checking training status:'' ?s1)
              = (Awaiting, s1)"
        by (simp add: Let_def)
      from Cons.IH [OF this] run Resolved False show ?thesis by (simp add: Let_def)
    next
      case ok: True
      show ?thesis
      proof (cases "status_switch model (ts_status d) c ?s1")
        case (Inl m)
        with run Resolved ok Cons.prems show ?thesis by (simp add: Let_def)
      next
        case (Inr p')
        obtain c' s2 where p': "p' = (c', s2)" by (cases p')
        from Inr p' run Resolved ok Cons.prems
        have "training_poll model c' (Suc a) ps s2 = (Awaiting, s1)"
          by (simp add: Let_def)
        from Cons.IH [OF this] Inr p' run Resolved ok show ?thesis by (simp add: Let_def)
      qed
    qed
  qed
qed

lemma training_poll_rejected_next:
  assumes "fst (training_poll model False 0 qs s) = Awaiting"
  shows "training_poll model False 0 (qs @ Rejected m # rest) s =
           (Thrown m,
            issue (GetTrainingStatus model)
              ((snd (training_poll model False 0 qs s))
                 \<lparr>waited := waited (snd (training_poll model False 0 qs s)) + 10000\<rparr>))"
proof -
  from assms have "training_poll model False 0 qs s
      = (Awaiting, snd (training_poll model False 0 qs s))"
    by (metis prod.collapse)
  from training_poll_resume [OF this] obtain a' where "a' < 30" and
    "training_poll model False 0 (qs @ Rejected m # rest) s
       = training_poll model False a' (Rejected m # rest) (snd (training_poll model False 0 qs s))"
    by blast
  then show ?thesis by (simp add: Let_def)
qed

lemma polls_issued_other [simp]:
  "polls_issued (issue (PostUploadTraining xs) s) = polls_issued s"
  "polls_issued (issue (PostTrainingStart m) s) = polls_issued s"
  "polls_issued (s\<lparr>trainingProgress := p\<rparr>) = polls_issued s"
  "polls_issued (s\<lparr>trainingInProgress := b\<rparr>) = polls_issued s"
  "polls_issued (s\<lparr>error := e\<rparr>) = polls_issued s"
  "waited (s\<lparr>trainingProgress := p\<rparr>) = waited s"
  by (simp_all add: polls_issued_def issue_def)

lemma training_catch_fields [simp]:
  "error (training_catch m s) = Some m"
  "trainingInProgress (training_catch m s) = False"
  "polls_issued (training_catch m s) = polls_issued s"
  "waited (training_catch m s) = waited s"
  by (simp_all add: training_catch_def log_def polls_issued_def)

lemma startTraining_polling:
  assumes "3 \<le> length (trainingImages s)" "tm_success u" "tm_success b"
  shows "\<exists>s0. polls_issued s0 = polls_issued s \<and> waited s0 = waited s \<and>
           (\<forall>rs. startTraining (Resolved u) (Resolved b) rs s =
             (case training_poll (tm_model_id u) False 0 rs s0 of
                (Awaiting, s5) \<Rightarrow> s5
              | (Thrown m, s5) \<Rightarrow> training_catch m s5
              | (Exited isCompleted, s5) \<Rightarrow>
                  if \<not> isCompleted then
                    training_catch
                      ''Training timed out. The process may still be running in the background.''
                      s5
                  else s5\<lparr>trainingInProgress := False\<rparr>))"
proof -
  define s0 where "s0 =
    (issue (PostTrainingStart (tm_model_id u))
       ((issue (PostUploadTraining (map (\<lambda>img. (ti_file img, ti_type img)) (trainingImages s)))
           (s\<lparr>trainingInProgress := True, error := None\<rparr>))
        \<lparr>trainingProgress := 30\<rparr>))
    \<lparr>trainingProgress := 50\<rparr>"
  have "polls_issued s0 = polls_issued s" "waited s0 = waited s"
    unfolding s0_def by simp_all
  moreover have "startTraining (Resolved u) (Resolved b) rs s =
             (case training_poll (tm_model_id u) False 0 rs s0 of
                (Awaiting, s5) \<Rightarrow> s5
              | (Thrown m, s5) \<Rightarrow> training_catch m s5
              | (Exited isCompleted, s5) \<Rightarrow>
                  if \<not> isCompleted then
                    training_catch
                      ''Training timed out. The process may still be running in the background.''
                      s5
                  else s5\<lparr>trainingInProgress := False\<rparr>)" for rs
    unfolding s0_def using assms by (simp add: startTraining_def Let_def)
  ultimately show ?thesis by blast
qed

text \<open>
  Claim C1, as the code has it. In a run where every status query resolves with
  \<^verbatim>\<open>success: true\<close> and a status other than \<^verbatim>\<open>completed\<close> and \<^verbatim>\<open>failed\<close>, the loop makes
  exactly 30 queries, each after a 10-second wait, and \<^verbatim>\<open>startTraining\<close> then reports
  \<^verbatim>\<open>Training timed out. The process may still be running in the background.\<close>; with fewer
  than 30 such answers the loop is still polling. Whatever the answers are, the loop is
  never left by its attempt limit after fewer than 30 queries. A rejected query ends the
  run at once, whatever was answered before it while the loop kept polling: that query is
  the last one made, later outcomes are not asked for, and \<^verbatim>\<open>startTraining\<close> reports the
  request's own error message and clears \<open>trainingInProgress\<close>.
\<close>

theorem training_times_out_after_30:
  assumes "list_all in_progress rs"
  shows "(30 \<le> length rs \<longrightarrow>
            fst (training_poll model False 0 rs s) = Exited False
            \<and> polls_issued (snd (training_poll model False 0 rs s)) = polls_issued s + 30
            \<and> waited (snd (training_poll model False 0 rs s)) = waited s + 30 * 10000)
       \<and> (length rs < 30 \<longrightarrow> fst (training_poll model False 0 rs s) = Awaiting)
       \<and> (30 \<le> length rs \<and> 3 \<le> length (trainingImages s) \<and> tm_success u \<and> tm_success b \<longrightarrow>
            error (startTraining (Resolved u) (Resolved b) rs s)
              = Some ''Training timed out. The process may still be running in the background.''
            \<and> \<not> trainingInProgress (startTraining (Resolved u) (Resolved b) rs s)
            \<and> polls_issued (startTraining (Resolved u) (Resolved b) rs s) = polls_issued s + 30
            \<and> waited (startTraining (Resolved u) (Resolved b) rs s) = waited s + 30 * 10000)
       \<and> (fst (training_poll model False 0 qs s) = Exited False \<longrightarrow>
            polls_issued s + 30 \<le> polls_issued (snd (training_poll model False 0 qs s)))
       \<and> (fst (training_poll model False 0 qs s) = Awaiting \<longrightarrow>
            training_poll model False 0 (qs @ Rejected m # rest) s =
              (Thrown m,
               issue (GetTrainingStatus model)
                 ((snd (training_poll model False 0 qs s))
                    \<lparr>waited := waited (snd (training_poll model False 0 qs s)) + 10000\<rparr>)))
       \<and> (3 \<le> length (trainingImages s) \<and> tm_success u \<and> tm_success b
            \<and> trainingInProgress (startTraining (Resolved u) (Resolved b) qs s) \<longrightarrow>
            startTraining (Resolved u) (Resolved b) (qs @ Rejected m # rest) s =
              training_catch m
                (issue (GetTrainingStatus (tm_model_id u))
                   ((startTraining (Resolved u) (Resolved b) qs s)
                      \<lparr>waited := waited (startTraining (Resolved u) (Resolved b) qs s) + 10000\<rparr>))
            \<and> error (startTraining (Resolved u) (Resolved b) (qs @ Rejected m # rest) s) = Some m
            \<and> \<not> trainingInProgress
                  (startTraining (Resolved u) (Resolved b) (qs @ Rejected m # rest) s)
            \<and> polls_issued (startTraining (Resolved u) (Resolved b) (qs @ Rejected m # rest) s)
                = polls_issued (startTraining (Resolved u) (Resolved b) qs s) + 1)"
proof -
  have loop: "fst (training_poll m' False 0 rs x) = Exited False
      \<and> polls_issued (snd (training_poll m' False 0 rs x)) = polls_issued x + 30
      \<and> waited (snd (training_poll m' False 0 rs x)) = waited x + 30 * 10000"
    if "30 \<le> length rs" for m' x
    using training_poll_in_progress [OF assms, of 0 m' x] that by simp
  have short: "length rs < 30 \<longrightarrow> fst (training_poll model False 0 rs s) = Awaiting"
    using training_poll_awaiting [OF assms, of 0] by simp
  have whole:
    "error (startTraining (Resolved u) (Resolved b) rs s)
        = Some ''Training timed out. The process may still be running in the background.''
      \<and> \<not> trainingInProgress (startTraining (Resolved u) (Resolved b) rs s)
      \<and> polls_issued (startTraining (Resolved u) (Resolved b) rs s) = polls_issued s + 30
      \<and> waited (startTraining (Resolved u) (Resolved b) rs s) = waited s + 30 * 10000"
    if len: "30 \<le> length rs" and pre: "3 \<le> length (trainingImages s)" "tm_success u" "tm_success b"
  proof -
    from startTraining_polling [OF pre] obtain s0 where
      p0: "polls_issued s0 = polls_issued s" and w0: "waited s0 = waited s" and
      run: "startTraining (Resolved u) (Resolved b) rs s =
             (case training_poll (tm_model_id u) False 0 rs s0 of
                (Awaiting, s5) \<Rightarrow> s5
              | (Thrown m, s5) \<Rightarrow> training_catch m s5
              | (Exited isCompleted, s5) \<Rightarrow>
                  if \<not> isCompleted then
                    training_catch
                      ''Training timed out. The process may still be running in the background.''
                      s5
                  else s5\<lparr>trainingInProgress := False\<rparr>)"
      by blast
    obtain e s5 where res: "training_poll (tm_model_id u) False 0 rs s0 = (e, s5)"
      by (cases "training_poll (tm_model_id u) False 0 rs s0")
    from loop [OF len, of "tm_model_id u" s0] res
    have "e = Exited False" "polls_issued s5 = polls_issued s + 30"
      "waited s5 = waited s + 30 * 10000"
      by (simp_all add: p0 w0)
    then show ?thesis unfolding run res by simp
  qed
  have lower: "fst (training_poll model False 0 qs s) = Exited False \<longrightarrow>
      polls_issued s + 30 \<le> polls_issued (snd (training_poll model False 0 qs s))"
  proof
    assume ex: "fst (training_poll model False 0 qs s) = Exited False"
    then have "training_poll model False 0 qs s
        = (Exited False, snd (training_poll model False 0 qs s))"
      by (metis prod.collapse)
    from training_poll_exit_lower_bound [OF this] show
      "polls_issued s + 30 \<le> polls_issued (snd (training_poll model False 0 qs s))"
      by simp
  qed
  have rejected: "fst (training_poll model False 0 qs s) = Awaiting \<longrightarrow>
      training_poll model False 0 (qs @ Rejected m # rest) s =
        (Thrown m,
         issue (GetTrainingStatus model)
           ((snd (training_poll model False 0 qs s))
              \<lparr>waited := waited (snd (training_poll model False 0 qs s)) + 10000\<rparr>))"
    using training_poll_rejected_next by blast
  have aborted:
    "startTraining (Resolved u) (Resolved b) (qs @ Rejected m # rest) s =
        training_catch m
          (issue (GetTrainingStatus (tm_model_id u))
             ((startTraining (Resolved u) (Resolved b) qs s)
                \<lparr>waited := waited (startTraining (Resolved u) (Resolved b) qs s) + 10000\<rparr>))
      \<and> error (startTraining (Resolved u) (Resolved b) (qs @ Rejected m # rest) s) = Some m
      \<and> \<not> trainingInProgress
            (startTraining (Resolved u) (Resolved b) (qs @ Rejected m # rest) s)
      \<and> polls_issued (startTraining (Resolved u) (Resolved b) (qs @ Rejected m # rest) s)
          = polls_issued (startTraining (Resolved u) (Resolved b) qs s) + 1"
    if pre: "3 \<le> length (trainingImages s)" "tm_success u" "tm_success b"
      and going: "trainingInProgress (startTraining (Resolved u) (Resolved b) qs s)"
  proof -
    let ?M = "tm_model_id u"
    from startTraining_polling [OF pre] obtain s0 where
      run: "\<And>xs. startTraining (Resolved u) (Resolved b) xs s =
             (case training_poll ?M False 0 xs s0 of
                (Awaiting, s5) \<Rightarrow> s5
              | (Thrown m, s5) \<Rightarrow> training_catch m s5
              | (Exited isCompleted, s5) \<Rightarrow>
                  if \<not> isCompleted then
                    training_catch
                      ''Training timed out. The process may still be running in the background.''
                      s5
                  else s5\<lparr>trainingInProgress := False\<rparr>)"
      by blast
    obtain e s5 where res: "training_poll ?M False 0 qs s0 = (e, s5)"
      by (cases "training_poll ?M False 0 qs s0")
    have e: "e = Awaiting"
    proof (cases e)
      case (Exited c)
      with going show ?thesis unfolding run res by (simp split: if_splits)
    next
      case (Thrown x)
      with going show ?thesis unfolding run res by simp
    next
      case Awaiting
      then show ?thesis .
    qed
    have before: "startTraining (Resolved u) (Resolved b) qs s = s5"
      unfolding run res e by simp
    from res e have "fst (training_poll ?M False 0 qs s0) = Awaiting" by simp
    from training_poll_rejected_next [OF this, of m rest] res
    have "training_poll ?M False 0 (qs @ Rejected m # rest) s0 =
        (Thrown m, issue (GetTrainingStatus ?M) (s5\<lparr>waited := waited s5 + 10000\<rparr>))"
      by simp
    then have after: "startTraining (Resolved u) (Resolved b) (qs @ Rejected m # rest) s =
        training_catch m (issue (GetTrainingStatus ?M) (s5\<lparr>waited := waited s5 + 10000\<rparr>))"
      unfolding run by simp
    show ?thesis unfolding after before by simp
  qed
  from loop [of model s] short whole lower rejected aborted show ?thesis by blast
qed

theorem training_times_out_after_30_witness:
  "list_all in_progress (replicate 30 (phase ''training''))
   \<and> error (startTraining (Resolved model_ok) (Resolved model_ok)
              (replicate 30 (phase ''training'')) three_images)
       = Some ''Training timed out. The process may still be running in the background.''
   \<and> polls_issued (startTraining (Resolved model_ok) (Resolved model_ok)
              (replicate 30 (phase ''training'')) three_images)
       = polls_issued three_images + 30
   \<and> fst (training_poll ''m1'' False 0 (replicate 30 (phase ''training'')) three_images)
       = Exited False
   \<and> trainingInProgress
       (startTraining (Resolved model_ok) (Resolved model_ok) [phase ''training''] three_images)
   \<and> error (startTraining (Resolved model_ok) (Resolved model_ok)
              ([phase ''training''] @ Rejected ''Network Error'' # [phase ''completed''])
              three_images)
       = Some ''Network Error''
   \<and> polls_issued (startTraining (Resolved model_ok) (Resolved model_ok)
              ([phase ''training''] @ Rejected ''Network Error'' # [phase ''completed''])
              three_images)
       = polls_issued
           (startTraining (Resolved model_ok) (Resolved model_ok) [phase ''training'']
              three_images) + 1"
proof -
  have h: "list_all in_progress (replicate 30 (phase ''training''))"
    by (simp add: list_all_iff in_progress_def phase_def)
  have pre: "3 \<le> length (trainingImages three_images)" "tm_success model_ok"
    by (simp_all add: three_images_def model_ok_def)
  have going: "trainingInProgress
       (startTraining (Resolved model_ok) (Resolved model_ok) [phase ''training''] three_images)"
    by (simp add: startTraining_def three_images_def model_ok_def initial_home_def phase_def
          status_switch_def issue_def Let_def)
  from h pre going
    training_times_out_after_30 [OF h, where model = "''m1''" and s = three_images
      and u = model_ok and b = model_ok and qs = "[phase ''training'']"
      and m = "''Network Error''" and rest = "[phase ''completed'']"]
  show ?thesis by simp
qed

text \<open>
  Claim C1 as stated fails on a run whose first status query is rejected: no terminal
  status has been observed, one query has been made, and the run ends with the request's
  error instead of the time-out.
\<close>

theorem training_rejected_query_counterexample:
  "error (startTraining (Resolved model_ok) (Resolved model_ok)
            [Rejected ''Network Error''] three_images) = Some ''Network Error''
   \<and> trainingInProgress (startTraining (Resolved model_ok) (Resolved model_ok)
            [Rejected ''Network Error''] three_images) = False
   \<and> polls_issued (startTraining (Resolved model_ok) (Resolved model_ok)
            [Rejected ''Network Error''] three_images) = 1"
  by (simp add: startTraining_def three_images_def model_ok_def initial_home_def Let_def
        issue_def training_catch_def log_def polls_issued_def)

text \<open>
  Claim C2, at the failing input. A status answer with \<^verbatim>\<open>success: false\<close> is logged and
  the loop goes on, but \<^verbatim>\<open>continue\<close> skips \<^verbatim>\<open>attempts++\<close>: the failed query uses up none of
  the 30 attempts. After any number \<open>n\<close> of such answers the loop has made \<open>n\<close> queries and
  is still polling, and one such answer followed by 30 answers in progress makes 31
  queries before the time-out.
\<close>

theorem unsuccessful_queries_not_counted:
  "fst (training_poll model False 0 (replicate n unsuccessful) s) = Awaiting
   \<and> polls_issued (snd (training_poll model False 0 (replicate n unsuccessful) s))
       = polls_issued s + n
   \<and> fst (training_poll model False 0 (unsuccessful # replicate 30 (phase ''training'')) s)
       = Exited False
   \<and> polls_issued
       (snd (training_poll model False 0 (unsuccessful # replicate 30 (phase ''training'')) s))
       = polls_issued s + 31"
proof -
  have skip: "training_poll model False 0 (unsuccessful # rs) x
      = training_poll model False 0 rs
          (log ''Error checking training status:''
             (issue (GetTrainingStatus model) (x\<lparr>waited := waited x + 10000\<rparr>)))" for rs x
    by (simp add: unsuccessful_def Let_def)
  have forever: "fst (training_poll model False 0 (replicate n unsuccessful) x) = Awaiting
      \<and> polls_issued (snd (training_poll model False 0 (replicate n unsuccessful) x))
          = polls_issued x + n" for x
  proof (induction n arbitrary: x)
    case 0
    show ?case by simp
  next
    case (Suc n)
    show ?case unfolding replicate_Suc skip using Suc.IH by simp
  qed
  have thirty: "list_all in_progress (replicate 30 (phase ''training''))"
    by (simp add: list_all_iff in_progress_def phase_def)
  have late: "fst (training_poll model False 0 (unsuccessful # replicate 30 (phase ''training'')) s)
       = Exited False
   \<and> polls_issued
       (snd (training_poll model False 0 (unsuccessful # replicate 30 (phase ''training'')) s))
       = polls_issued s + 31"
    unfolding skip using training_poll_in_progress [OF thirty, of 0 model] by simp
  from forever [of s] late show ?thesis by blast
qed

subsection \<open>Job status polling\<close>








lemma status_queries_issue [simp]:
  "status_queries jid (issue (GetStatus jid) s) = Suc (status_queries jid s)"
  by (simp add: status_queries_def issue_def)

lemma ad_checkStatus_queries:
  "status_queries jid (ad_checkStatus jid r s) = Suc (status_queries jid s)"
  by (cases r) (simp_all add: ad_checkStatus_def status_queries_def issue_def log_def Let_def)

text \<open>
  Claim C5, at the failing input. The interval timer of \<^verbatim>\<open>handleAdGeneration\<close> is not
  cleared when a terminal status arrives: every check before the 300000 ms cut-off issues
  a status query, whatever the earlier checks observed. When the launch check already
  returns \<^verbatim>\<open>completed\<close>, the next tick queries the status of the same job again.
\<close>

theorem ad_checks_query_after_terminal:
  "status_queries jid (ad_checks jid rs s) = status_queries jid s + length rs
   \<and> status_queries ''job1''
       (handleAdGeneration ''Buy now'' (Resolved \<lparr>ga_success = True, ga_job_id = ''job1''\<rparr>)
          [Resolved (report ''completed'' 100), Resolved (report ''completed'' 100)]
          initial_home) = 2"
proof -
  have general: "status_queries j (ad_checks j r x) = status_queries j x + length r" for j r x
    by (induction r arbitrary: x) (simp_all add: ad_checkStatus_queries)
  have launch:
    "handleAdGeneration ''Buy now'' (Resolved \<lparr>ga_success = True, ga_job_id = ''job1''\<rparr>) rs'
       initial_home
     = ad_checks ''job1'' rs'
         ((issue (PostGenerateAd ''Buy now'')
             (initial_home\<lparr>loading := True, error := None, jobStatus := None\<rparr>))
          \<lparr>jobId := Some ''job1''\<rparr>)" for rs'
    by (simp add: handleAdGeneration_def Let_def)
  have "status_queries ''job1''
       (handleAdGeneration ''Buy now'' (Resolved \<lparr>ga_success = True, ga_job_id = ''job1''\<rparr>)
          [Resolved (report ''completed'' 100), Resolved (report ''completed'' 100)]
          initial_home) = 2"
    unfolding launch general
    by (simp add: status_queries_def issue_def initial_home_def)
  with general [of jid rs s] show ?thesis by blast
qed

text \<open>
  The job status effect, for comparison: a terminal answer or a rejected query clears
  the timer, later outcomes are not asked for, and a rejected query sets the generic
  error message.
\<close>

lemma effect_poll_terminal:
  assumes "interval s" "jobId s = Some jid" "terminal (status d)"
  shows "effect_poll (Resolved d # rs) s = effect_tick (Resolved d) s
         \<and> \<not> interval (effect_tick (Resolved d) s)
         \<and> \<not> loading (effect_tick (Resolved d) s)
         \<and> requests (effect_tick (Resolved d) s) = requests s @ [GetStatus jid]"
proof -
  have off: "\<not> interval (effect_tick (Resolved d) s)"
    using assms
    by (auto simp: effect_tick_def rerender_def interval_callback_def Let_def issue_def
          effect_condition_def current_status_def terminal_def)
  moreover have "\<not> loading (effect_tick (Resolved d) s)"
    "requests (effect_tick (Resolved d) s) = requests s @ [GetStatus jid]"
    using assms
    by (auto simp: effect_tick_def rerender_def interval_callback_def Let_def issue_def)
  moreover have "effect_poll (Resolved d # rs) s = effect_tick (Resolved d) s"
    using assms(1) off by (cases rs) simp_all
  ultimately show ?thesis by blast
qed

lemma effect_poll_rejected:
  assumes "interval s" "jobId s = Some jid"
  shows "effect_poll (Rejected m # rs) s = effect_tick (Rejected m) s
         \<and> \<not> interval (effect_tick (Rejected m) s)
         \<and> \<not> loading (effect_tick (Rejected m) s)
         \<and> error (effect_tick (Rejected m) s) = Some ''Failed to check video generation status''
         \<and> requests (effect_tick (Rejected m) s) = requests s @ [GetStatus jid]"
proof -
  have t: "effect_tick (Rejected m) s
      = (log ''Error checking job status:'' (issue (GetStatus jid) s))
          \<lparr>interval := False, loading := False,
           error := Some ''Failed to check video generation status''\<rparr>"
    using assms
    by (simp add: effect_tick_def rerender_def interval_callback_def Let_def issue_def log_def
          current_status_def)
  have "effect_poll (Rejected m # rs) s = effect_tick (Rejected m) s"
    using assms(1) by (cases rs) (simp_all add: t)
  then show ?thesis by (simp add: t issue_def log_def)
qed

text \<open>
  Claim C6, at the failing input. When a status query of \<^verbatim>\<open>startCheckingStatus\<close> is
  rejected, polling stops (one query, no retry) and \<open>loading\<close> is cleared, but no error
  message is set and the job record is left as it was: the failure reaches the user
  without the generic status-check message.
\<close>

theorem startCheckingStatus_rejected_sets_no_error:
  "error (startCheckingStatus jid (Rejected m # rs) s) = error s
   \<and> loading (startCheckingStatus jid (Rejected m # rs) s) = False
   \<and> jobStatus (startCheckingStatus jid (Rejected m # rs) s) = jobStatus s
   \<and> requests (startCheckingStatus jid (Rejected m # rs) s) = requests s @ [GetStatus jid]"
  by (simp add: issue_def log_def Let_def)

subsection \<open>Voice cloning\<close>

text \<open>
  Claim C8, as the code has it. When a recording has been uploaded, the user accepts
  cloning and names the voice, and the clone request fails, the user is notified by an
  alert starting \<^verbatim>\<open>Failed to clone voice\<close> and \<open>loading\<close> is cleared; the list of uploaded
  voices and the selected voice are as they were before the upload. The raw uploaded
  asset is not added to the list.
\<close>

theorem clone_failure_leaves_voices:
  assumes "vu_success d" "name \<noteq> []" "clone_failed cl"
  shows "(\<exists>msg. alerts (uploadVoiceRecording t0 t1 True (Some name) (Resolved d) cl s)
                 = alerts s @ [''Failed to clone voice'' @ msg])
         \<and> uploadedVoices (uploadVoiceRecording t0 t1 True (Some name) (Resolved d) cl s)
             = uploadedVoices s
         \<and> selectedVoice (uploadVoiceRecording t0 t1 True (Some name) (Resolved d) cl s)
             = selectedVoice s
         \<and> loading (uploadVoiceRecording t0 t1 True (Some name) (Resolved d) cl s) = False"
proof (cases cl)
  case (Rejected m)
  with assms(1,2) show ?thesis
    by (simp add: uploadVoiceRecording_def cloneVoice_def issue_def alert_def log_def Let_def)
next
  case (Resolved c)
  with assms have "\<not> cv_success c" by (simp add: clone_failed_def)
  with Resolved assms(1,2) show ?thesis
    by (simp add: uploadVoiceRecording_def cloneVoice_def issue_def alert_def log_def Let_def)
qed

theorem clone_failure_leaves_voices_witness:
  "vu_success upload_ok \<and> ''My Custom Voice'' \<noteq> [] \<and> clone_failed (Rejected ''Network Error'')
   \<and> uploadedVoices
       (uploadVoiceRecording 41 42 True (Some ''My Custom Voice'') (Resolved upload_ok)
          (Rejected ''Network Error'') initial_home) = uploadedVoices initial_home
   \<and> loading
       (uploadVoiceRecording 41 42 True (Some ''My Custom Voice'') (Resolved upload_ok)
          (Rejected ''Network Error'') initial_home) = False"
proof -
  have h: "vu_success upload_ok" "''My Custom Voice'' \<noteq> []"
    "clone_failed (Rejected ''Network Error'')"
    by (simp_all add: upload_ok_def clone_failed_def)
  from h clone_failure_leaves_voices [OF h] show ?thesis by blast
qed

text \<open>
  Claim C8 as stated fails from the initial state: after the failed clone the list of
  uploaded voices is empty and no voice is selected.
\<close>

theorem clone_failure_counterexample:
  "uploadedVoices
     (uploadVoiceRecording 41 42 True (Some ''My Custom Voice'') (Resolved upload_ok)
        (Rejected ''Network Error'') initial_home) = []
   \<and> selectedVoice
     (uploadVoiceRecording 41 42 True (Some ''My Custom Voice'') (Resolved upload_ok)
        (Rejected ''Network Error'') initial_home) = None
   \<and> alerts
     (uploadVoiceRecording 41 42 True (Some ''My Custom Voice'') (Resolved upload_ok)
        (Rejected ''Network Error'') initial_home)
     = [''Failed to clone voice. Please try again.'']"
  by (simp add: uploadVoiceRecording_def cloneVoice_def issue_def alert_def log_def Let_def
        upload_ok_def initial_home_def)

end
